theory Spec2Isabelle
  imports Complex_Main "HOL-Library.Sublist"
begin

section \<open>Python values shared by the scripts\<close>

text \<open>
  The scripts are Python. Floats are idealised as \<^typ>\<open>real\<close> (the rounding error of
  binary floating point is not modelled), Python's unbounded integers are \<^typ>\<open>int\<close>, and
  every exception that the code can raise is a value of \<open>py_exn\<close>. All constructors stand
  for subclasses of Python's \<open>Exception\<close>: \<open>EEException\<close> is the provider's
  \<open>ee.EEException\<close>, \<open>OtherException\<close> any further subclass (a network error, say).
  The argument is the message, \<open>str(e)\<close>. What the code prints to stderr is not modelled.
\<close>

datatype py_exn =
    EEException string
  | KeyError string
  | TypeError string
  | ValueError string
  | IndexError string
  | AttributeError string
  | RuntimeError string
  | OtherException string

text \<open>\<open>str.lower()\<close> on the ASCII range, and the substring test \<open>needle in haystack\<close>.\<close>

definition lower_char :: "char \<Rightarrow> char" where
  "lower_char c =
     (let n = (of_char c :: nat) in if 65 \<le> n \<and> n \<le> 90 then char_of (n + 32) else c)"

definition lower :: "string \<Rightarrow> string" where
  "lower s = map lower_char s"

fun py_in :: "string \<Rightarrow> string \<Rightarrow> bool" where
  "py_in needle [] = (needle = [])"
| "py_in needle (c # cs) = (prefix needle (c # cs) \<or> py_in needle cs)"

text \<open>\<open>str(n)\<close> for an integer: decimal digits, with a minus sign below zero.\<close>

fun str_nat :: "nat \<Rightarrow> string" where
  "str_nat n =
     (if n < 10 then [char_of (48 + n)] else str_nat (n div 10) @ [char_of (48 + n mod 10)])"

definition str_int :: "int \<Rightarrow> string" where
  "str_int i = (if i < 0 then CHR ''-'' # str_nat (nat (- i)) else str_nat (nat i))"

text \<open>
  \<open>round(x, ndigits)\<close>: the nearest multiple of \<open>10 ^ (- ndigits)\<close>, a tie going to the even
  one, taken on the exact value of \<open>x\<close>.
\<close>

definition py_round :: "real \<Rightarrow> nat \<Rightarrow> real" where
  "py_round x ndigits =
     (let s = x * 10 ^ ndigits; f = \<lfloor>s\<rfloor>; d = s - of_int f
      in of_int (if d < 1 / 2 then f else if 1 / 2 < d then f + 1 else if even f then f else f + 1)
           / 10 ^ ndigits)"

text \<open>
  Parsed JSON (\<open>json.load\<close>). A dict is an association list read with \<^const>\<open>map_of\<close>.
  \<open>truthy\<close> is Python's truth value of an object, as used by \<open>not x\<close>, \<open>x or y\<close> and
  \<open>if x\<close>.
\<close>

datatype json =
    JNull
  | JBool bool
  | JInt int
  | JFloat real
  | JStr string
  | JList "json list"
  | JDict "(string \<times> json) list"

fun truthy :: "json \<Rightarrow> bool" where
  "truthy JNull = False"
| "truthy (JBool b) = b"
| "truthy (JInt i) = (i \<noteq> 0)"
| "truthy (JFloat r) = (r \<noteq> 0)"
| "truthy (JStr s) = (s \<noteq> [])"
| "truthy (JList xs) = (xs \<noteq> [])"
| "truthy (JDict kvs) = (kvs \<noteq> [])"

text \<open>\<open>d.get(key)\<close> on a dict: \<open>None\<close> when the key is absent.\<close>

definition dict_get :: "(string \<times> json) list \<Rightarrow> string \<Rightarrow> json" where
  "dict_get d key = (case map_of d key of None \<Rightarrow> JNull | Some v \<Rightarrow> v)"

text \<open>\<open>obj[key]\<close> with a string key: only a dict holding the key answers.\<close>

fun py_getitem :: "json \<Rightarrow> string \<Rightarrow> py_exn + json" where
  "py_getitem (JDict d) key = (case map_of d key of None \<Rightarrow> Inl (KeyError key) | Some v \<Rightarrow> Inr v)"
| "py_getitem (JList xs) key = Inl (TypeError ''list indices must be integers or slices, not str'')"
| "py_getitem (JStr s) key = Inl (TypeError ''string indices must be integers, not str'')"
| "py_getitem j key = Inl (TypeError ''object is not subscriptable'')"

text \<open>
  \<open>obj[0]\<close>. The keys of a parsed JSON object are strings, so a dict never holds the key
  \<open>0\<close>.
\<close>

fun py_index0 :: "json \<Rightarrow> py_exn + json" where
  "py_index0 (JList []) = Inl (IndexError ''list index out of range'')"
| "py_index0 (JList (x # xs)) = Inr x"
| "py_index0 (JStr []) = Inl (IndexError ''string index out of range'')"
| "py_index0 (JStr (c # cs)) = Inr (JStr [c])"
| "py_index0 (JDict d) = Inl (KeyError ''0'')"
| "py_index0 j = Inl (TypeError ''object is not subscriptable'')"

section \<open>The geometry normalizer (\<open>analyze_farm.py\<close>)\<close>

text \<open>
  \<open>isinstance(x, (int, float))\<close>: Python's \<open>bool\<close> is a subclass of \<open>int\<close>, so a JSON
  boolean passes the test too.
\<close>

fun is_number :: "json \<Rightarrow> bool" where
  "is_number (JInt i) = True"
| "is_number (JFloat r) = True"
| "is_number (JBool b) = True"
| "is_number j = False"

fun is_list :: "json \<Rightarrow> bool" where
  "is_list (JList xs) = True"
| "is_list j = False"

text \<open>\<open>_strip_z_coordinates\<close>.\<close>

fun strip_z_coordinates :: "json \<Rightarrow> json" where
  "strip_z_coordinates (JList cs) =
     (if cs \<noteq> [] \<and> is_number (hd cs) then JList (take 2 cs)
      else JList (map strip_z_coordinates cs))"
| "strip_z_coordinates coords = coords"

text \<open>\<open>_normalize_geometry\<close>. The result is the dict \<open>{'type': .., 'coordinates': ..}\<close>.\<close>

definition normalize_geometry :: "json \<Rightarrow> py_exn + json" where
  "normalize_geometry geometry =
     (case geometry of
        JDict d \<Rightarrow>
          (let geom_type = dict_get d ''type''; coords = dict_get d ''coordinates''
           in if \<not> truthy geom_type \<or> coords = JNull
              then Inl (ValueError (''Geometria invalida: falta 'type' o 'coordinates'' @ [CHR 0x27]))
              else
                (let coords_2d = strip_z_coordinates coords
                 in if geom_type = JStr ''MultiPolygon'' then
                      (if \<not> truthy coords_2d then Inl (ValueError ''MultiPolygon invalido: sin poligonos'')
                       else
                         (case py_index0 coords_2d of
                            Inl e \<Rightarrow> Inl e
                          | Inr first \<Rightarrow>
                              if \<not> is_list first
                              then Inl (ValueError ''MultiPolygon invalido: sin poligonos'')
                              else Inr (JDict [(''type'', JStr ''Polygon''), (''coordinates'', first)])))
                    else Inr (JDict [(''type'', geom_type), (''coordinates'', coords_2d)])))
      | _ \<Rightarrow> Inl (ValueError ''Geometria invalida: se esperaba un objeto GeoJSON''))"

section \<open>The retry executor (\<open>ndvi_calculator.py\<close>, \<open>retry_ee_operation\<close>)\<close>

text \<open>
  The operation is a zero-argument callable with effects: what it returns or raises may
  differ from one invocation to the next. It is modelled by the outcome of each invocation,
  \<open>operation k\<close> being the outcome of the invocation made after \<open>k\<close> earlier ones.
  The state records how often the operation was invoked and the durations passed to
  \<open>time.sleep\<close>, in order.
\<close>

record retry_state =
  calls :: nat
  sleeps :: "real list"

definition retryable_msg :: "string \<Rightarrow> bool" where
  "retryable_msg msg =
     (let error_msg = lower msg
      in py_in ''timeout'' error_msg \<or> py_in ''rate limit'' error_msg \<or> py_in ''quota'' error_msg)"

function retry_loop ::
  "(nat \<Rightarrow> py_exn + 'a) \<Rightarrow> int \<Rightarrow> real \<Rightarrow> string \<Rightarrow> nat \<Rightarrow> py_exn option \<Rightarrow> retry_state
     \<Rightarrow> (py_exn + 'a) \<times> retry_state" where
  "retry_loop operation max_retries delay operation_name attempt last_error st =
     (if int attempt < max_retries then
        (case operation (calls st) of
           Inr v \<Rightarrow> (Inr v, st\<lparr>calls := Suc (calls st)\<rparr>)
         | Inl e \<Rightarrow>
             (case e of
                EEException msg \<Rightarrow>
                  if retryable_msg msg then
                    if int attempt < max_retries - 1 then
                      retry_loop operation max_retries delay operation_name (Suc attempt) (Some e)
                        (st\<lparr>calls := Suc (calls st), sleeps := sleeps st @ [delay * 2 ^ attempt]\<rparr>)
                    else (Inl e, st\<lparr>calls := Suc (calls st)\<rparr>)
                  else (Inl e, st\<lparr>calls := Suc (calls st)\<rparr>)
              | _ \<Rightarrow> (Inl e, st\<lparr>calls := Suc (calls st)\<rparr>)))
      else
        (case last_error of
           Some e \<Rightarrow> (Inl e, st)
         | None \<Rightarrow>
             (Inl (RuntimeError
                (operation_name @ '' failed after '' @ str_int max_retries @ '' attempts'')), st)))"
  by pat_completeness auto
termination
  by (relation "measure (\<lambda>(operation, max_retries, delay, operation_name, attempt, last_error, st).
        nat (max_retries - int attempt))") auto

definition retry_ee_operation ::
  "(nat \<Rightarrow> py_exn + 'a) \<Rightarrow> int \<Rightarrow> real \<Rightarrow> string \<Rightarrow> (py_exn + 'a) \<times> retry_state" where
  "retry_ee_operation operation max_retries delay operation_name =
     retry_loop operation max_retries delay operation_name 0 None \<lparr>calls = 0, sleeps = []\<rparr>"

text \<open>An invocation's outcome after which the loop sleeps and tries again.\<close>

definition retryable_failure :: "py_exn + 'a \<Rightarrow> bool" where
  "retryable_failure r =
     (case r of Inl (EEException msg) \<Rightarrow> retryable_msg msg | _ \<Rightarrow> False)"

section \<open>The remote provider\<close>

text \<open>
  Earth Engine is outside the repository. Each remote call of the code is modelled by its
  outcome, a value or the exception it raises, given by an environment; the theorems hold
  for every environment, hence for every polygon and every answer of the provider. Building
  the lazy image and collection objects does not raise. A call that the code makes twice
  (\<open>aoi.area().getInfo()\<close> in the hybrid branch) has the same outcome both times.
  A band statistic of a \<open>getInfo()\<close> dict is a number or \<open>None\<close>.
\<close>

datatype ee_value = EENull | EENum real

record ee_env =
  geometry_polygon :: "json \<Rightarrow> py_exn option"
  area_getInfo :: "py_exn + real"
  size_getInfo :: "py_exn + int"
  ndvi_getInfo :: "py_exn + (string \<rightharpoonup> ee_value)"
  now_isoformat :: string

text \<open>
  The first lines of every analysis: \<open>polygon.get('type')\<close>, the coordinates of the Feature's
  geometry or of the polygon itself, and \<open>ee.Geometry.Polygon(coords)\<close>.
\<close>

definition polygon_coords :: "json \<Rightarrow> py_exn + json" where
  "polygon_coords polygon =
     (case polygon of
        JDict d \<Rightarrow>
          (if dict_get d ''type'' = JStr ''Feature''
           then (case py_getitem polygon ''geometry'' of
                   Inl e \<Rightarrow> Inl e
                 | Inr g \<Rightarrow> py_getitem g ''coordinates'')
           else py_getitem polygon ''coordinates'')
      | _ \<Rightarrow> Inl (AttributeError ''object has no attribute get''))"

definition ee_polygon :: "(json \<Rightarrow> py_exn option) \<Rightarrow> json \<Rightarrow> py_exn + json" where
  "ee_polygon mk_geometry polygon =
     (case polygon_coords polygon of
        Inl e \<Rightarrow> Inl e
      | Inr coords \<Rightarrow> (case mk_geometry coords of Some e \<Rightarrow> Inl e | None \<Rightarrow> Inr coords))"

section \<open>Biomass and carbon (\<open>carbon_baseline.py\<close>)\<close>

text \<open>
  One entry of the tree inventory: a dict whose keys may be absent. Where a key is present its
  value is a number (a count is an integer), as the inventory format has it.
\<close>

record tree =
  species :: "string option"
  dbh_cm :: "real option"
  avgDbh :: "real option"
  height_m :: "real option"
  avgHeight :: "real option"
  tree_count :: "int option"

definition WOOD_DENSITY :: "(string \<times> real) list" where
  "WOOD_DENSITY =
     [(''Pinus caribaea'', 0.51),
      (''Pinus patula'', 0.45),
      (''Eucalyptus'', 0.65),
      (''Eucalyptus grandis'', 0.55),
      (''Acacia'', 0.58),
      (''Acacia mangium'', 0.52),
      (''Coffea arabica'', 0.55),
      (''Coffea'', 0.55),
      (''Inga'', 0.52),
      (''Cordia alliodora'', 0.44),
      (''Cedrela odorata'', 0.42),
      (''Swietenia macrophylla'', 0.54),
      (''Tectona grandis'', 0.55),
      (''default'', 0.60)]"

text \<open>\<open>WOOD_DENSITY.get(species, WOOD_DENSITY['default'])\<close>.\<close>

definition wood_density :: "string \<Rightarrow> real" where
  "wood_density sp =
     (case map_of WOOD_DENSITY sp of
        Some rho \<Rightarrow> rho
      | None \<Rightarrow> the (map_of WOOD_DENSITY ''default''))"

text \<open>What the loop body reads from a tree, with the defaults of \<open>tree.get\<close>.\<close>

definition tree_species :: "tree \<Rightarrow> string" where
  "tree_species t = (case species t of Some s \<Rightarrow> s | None \<Rightarrow> ''default'')"

definition tree_dbh :: "tree \<Rightarrow> real" where
  "tree_dbh t =
     (case dbh_cm t of Some d \<Rightarrow> d | None \<Rightarrow> (case avgDbh t of Some d \<Rightarrow> d | None \<Rightarrow> 0))"

definition tree_height :: "tree \<Rightarrow> real" where
  "tree_height t =
     (case height_m t of Some h \<Rightarrow> h | None \<Rightarrow> (case avgHeight t of Some h \<Rightarrow> h | None \<Rightarrow> 0))"

definition tree_cnt :: "tree \<Rightarrow> int" where
  "tree_cnt t = (case tree_count t of Some c \<Rightarrow> c | None \<Rightarrow> 1)"

text \<open>
  The loop of \<open>calculate_agb_from_field_data\<close>, with its two accumulators
  \<open>total_agb_kg\<close> and \<open>trees_analyzed\<close>. The base of \<open>** 0.976\<close> is positive whenever the
  power is taken, so the float power is \<^const>\<open>powr\<close>.
\<close>

fun field_loop :: "tree list \<Rightarrow> real \<Rightarrow> int \<Rightarrow> real \<times> int" where
  "field_loop [] total_agb_kg trees_analyzed = (total_agb_kg, trees_analyzed)"
| "field_loop (t # rest) total_agb_kg trees_analyzed =
     (let sp = tree_species t; dbh = tree_dbh t; height = tree_height t; cnt = tree_cnt t
      in if dbh \<le> 0 \<or> height \<le> 0 then field_loop rest total_agb_kg trees_analyzed
         else
           (let rho = wood_density sp;
                agb_kg = 0.0673 * ((rho * dbh ^ 2 * height) powr 0.976)
            in field_loop rest (total_agb_kg + agb_kg * of_int cnt) (trees_analyzed + cnt)))"

record field_result =
  total_agb_kg :: real
  total_agb_tonnes :: real
  trees_analyzed :: int

definition calculate_agb_from_field_data :: "tree list \<Rightarrow> field_result" where
  "calculate_agb_from_field_data tree_inventory =
     (case field_loop tree_inventory 0 0 of
        (kg, n) \<Rightarrow> \<lparr>total_agb_kg = kg, total_agb_tonnes = kg / 1000, trees_analyzed = n\<rparr>)"

record sat_result =
  sat_total_agb_tonnes :: real
  agb_per_ha :: real
  area_ha :: real
  ndvi_mean :: real
  sat_method :: string

definition calculate_agb_from_satellite :: "ee_env \<Rightarrow> json \<Rightarrow> py_exn + sat_result" where
  "calculate_agb_from_satellite env polygon =
     (case ee_polygon (geometry_polygon env) polygon of
        Inl e \<Rightarrow> Inl e
      | Inr aoi \<Rightarrow>
     (case area_getInfo env of
        Inl e \<Rightarrow> Inl e
      | Inr area_m2 \<Rightarrow>
     (let a_ha = area_m2 / 10000 in
     (case size_getInfo env of
        Inl e \<Rightarrow> Inl e
      | Inr collection_size \<Rightarrow>
          if collection_size = 0 then
            Inr \<lparr>sat_total_agb_tonnes = a_ha * 50, agb_per_ha = 50, area_ha = a_ha,
                 ndvi_mean = 0.5, sat_method = ''default_estimation''\<rparr>
          else
            (case ndvi_getInfo env of
               Inl e \<Rightarrow> Inl e
             | Inr ndvi_stats \<Rightarrow>
                 (case (case ndvi_stats ''NDVI'' of None \<Rightarrow> EENum 0.5 | Some v \<Rightarrow> v) of
                    EENull \<Rightarrow> Inl (TypeError ''unsupported format string passed to NoneType.__format__'')
                  | EENum nm \<Rightarrow>
                      (let per_ha = (if nm > 0.3 then max 20 (min 200 (150 * nm ^ 2))
                                     else max 5 (50 * nm))
                       in Inr \<lparr>sat_total_agb_tonnes = per_ha * a_ha, agb_per_ha = per_ha,
                               area_ha = a_ha, ndvi_mean = nm,
                               sat_method = ''ndvi_correlation''\<rparr>)))))))"

text \<open>\<open>tree_inventory and len(tree_inventory) > 0\<close> for an optional list.\<close>

fun has_inventory :: "tree list option \<Rightarrow> bool" where
  "has_inventory None = False"
| "has_inventory (Some []) = False"
| "has_inventory (Some (t # ts)) = True"

text \<open>Line 225: the weight of the field estimate in the hybrid method.\<close>

definition field_weight :: "int \<Rightarrow> real" where
  "field_weight n = min 0.7 (0.3 + of_int n / 100)"

text \<open>
  \<open>calculate_carbon_baseline\<close>, lines 205 to 238: the dispatch on the method, which sets
  \<open>total_agb\<close>, \<open>agb_per_ha\<close>, \<open>trees_analyzed\<close> and \<open>confidence\<close>. These are the values
  before the rounding of the result dict.
\<close>

record agb_estimate =
  total_agb :: real
  est_agb_per_ha :: real
  est_trees_analyzed :: int
  est_confidence :: string

definition agb_by_method ::
  "ee_env \<Rightarrow> json \<Rightarrow> real \<Rightarrow> tree list option \<Rightarrow> string \<Rightarrow> py_exn + agb_estimate" where
  "agb_by_method env polygon a_ha tree_inventory method =
     (if method = ''field'' \<and> has_inventory tree_inventory then
        (let field_result = calculate_agb_from_field_data (the tree_inventory);
             tot = total_agb_tonnes field_result
         in Inr \<lparr>total_agb = tot,
                 est_agb_per_ha = (if a_ha > 0 then tot / a_ha else 0),
                 est_trees_analyzed = trees_analyzed field_result,
                 est_confidence = (if trees_analyzed field_result \<ge> 10 then ''high'' else ''medium'')\<rparr>)
      else if method = ''hybrid'' \<and> has_inventory tree_inventory then
        (let field_result = calculate_agb_from_field_data (the tree_inventory)
         in case calculate_agb_from_satellite env polygon of
              Inl e \<Rightarrow> Inl e
            | Inr sat \<Rightarrow>
                (let field_agb = total_agb_tonnes field_result;
                     sat_agb = sat_total_agb_tonnes sat;
                     fw = field_weight (trees_analyzed field_result);
                     sat_weight = 1 - fw;
                     tot = field_agb * fw + sat_agb * sat_weight
                 in Inr \<lparr>total_agb = tot,
                         est_agb_per_ha = (if a_ha > 0 then tot / a_ha else 0),
                         est_trees_analyzed = trees_analyzed field_result,
                         est_confidence = ''high''\<rparr>))
      else
        (case calculate_agb_from_satellite env polygon of
           Inl e \<Rightarrow> Inl e
         | Inr sat \<Rightarrow>
             Inr \<lparr>total_agb = sat_total_agb_tonnes sat,
                  est_agb_per_ha = agb_per_ha sat,
                  est_trees_analyzed = 0,
                  est_confidence = ''medium''\<rparr>))"

record estimation_result =
  baselineCarbonTCO2e :: real
  agbTonnesPerHa :: real
  totalAgbTonnes :: real
  totalCarbonTonnes :: real
  areaHa :: real
  methodology :: string
  confidence :: string
  treesAnalyzed :: int
  calculationDate :: string
  equation :: string
  verraMethodology :: string
  abovegroundBiomass :: real
  belowgroundBiomass :: real

text \<open>Lines 240 to 270: the conversion to carbon and the result dict.\<close>

definition build_result :: "string \<Rightarrow> real \<Rightarrow> string \<Rightarrow> agb_estimate \<Rightarrow> estimation_result" where
  "build_result now a_ha method est =
     (let total_carbon = total_agb est * 0.47;
          total_carbon_with_bgb = total_carbon * 1.2;
          total_co2e = total_carbon_with_bgb * (44 / 12)
      in \<lparr>baselineCarbonTCO2e = py_round total_co2e 2,
           agbTonnesPerHa = py_round (est_agb_per_ha est) 2,
           totalAgbTonnes = py_round (total_agb est) 2,
           totalCarbonTonnes = py_round total_carbon_with_bgb 2,
           areaHa = py_round a_ha 4,
           methodology = method,
           confidence = est_confidence est,
           treesAnalyzed = est_trees_analyzed est,
           calculationDate = now,
           equation = ''Chave et al. 2014 (pantropical)'',
           verraMethodology = ''VM0042'',
           abovegroundBiomass = py_round total_carbon 2,
           belowgroundBiomass = py_round (total_carbon * 0.2) 2\<rparr>)"

definition calculate_carbon_baseline ::
  "ee_env \<Rightarrow> json \<Rightarrow> string \<Rightarrow> tree list option \<Rightarrow> string \<Rightarrow> py_exn + estimation_result" where
  "calculate_carbon_baseline env polygon project_id tree_inventory method =
     (case ee_polygon (geometry_polygon env) polygon of
        Inl e \<Rightarrow> Inl e
      | Inr aoi \<Rightarrow>
     (case area_getInfo env of
        Inl e \<Rightarrow> Inl e
      | Inr area_m2 \<Rightarrow>
     (let a_ha = area_m2 / 10000 in
     (case agb_by_method env polygon a_ha tree_inventory method of
        Inl e \<Rightarrow> Inl e
      | Inr est \<Rightarrow> Inr (build_result (now_isoformat env) a_ha method est)))))"

subsection \<open>The local script's variant (\<open>analyze_farm.py\<close>, \<open>calculate_carbon_baseline\<close>)\<close>

text \<open>
  It has no method argument: the inventory decides. Its field loop (lines 510 to 525) is the
  loop of \<open>calculate_agb_from_field_data\<close> line for line, over its own copy of the density
  table with the same entries; its result dict (lines 581 to 606) is the one above.
\<close>

definition af_agb_estimate ::
  "ee_env \<Rightarrow> real \<Rightarrow> tree list option \<Rightarrow> py_exn + string \<times> agb_estimate" where
  "af_agb_estimate env a_ha tree_inventory =
     (if has_inventory tree_inventory then
        (case field_loop (the tree_inventory) 0 0 of
           (kg, n) \<Rightarrow>
             (let tot = kg / 1000
              in Inr (''field'',
                   \<lparr>total_agb = tot,
                    est_agb_per_ha = (if a_ha > 0 then tot / a_ha else 0),
                    est_trees_analyzed = n,
                    est_confidence = (if n \<ge> 10 then ''high'' else ''medium'')\<rparr>)))
      else
        (case size_getInfo env of
           Inl e \<Rightarrow> Inl e
         | Inr collection_size \<Rightarrow>
             if collection_size = 0 then
               Inr (''satellite'',
                 \<lparr>total_agb = 50 * a_ha, est_agb_per_ha = 50, est_trees_analyzed = 0,
                  est_confidence = ''low''\<rparr>)
             else
               (case ndvi_getInfo env of
                  Inl e \<Rightarrow> Inl e
                | Inr ndvi_stats \<Rightarrow>
                    (case (case ndvi_stats ''NDVI'' of None \<Rightarrow> EENum 0.5 | Some v \<Rightarrow> v) of
                       EENull \<Rightarrow>
                         Inl (TypeError ''unsupported format string passed to NoneType.__format__'')
                     | EENum nm \<Rightarrow>
                         (let per_ha = (if nm > 0.3 then max 20 (min 200 (150 * nm ^ 2))
                                        else max 5 (50 * nm))
                          in Inr (''satellite'',
                               \<lparr>total_agb = per_ha * a_ha, est_agb_per_ha = per_ha,
                                est_trees_analyzed = 0, est_confidence = ''medium''\<rparr>))))))"

definition af_calculate_carbon_baseline ::
  "ee_env \<Rightarrow> json \<Rightarrow> string \<Rightarrow> tree list option \<Rightarrow> py_exn + estimation_result" where
  "af_calculate_carbon_baseline env polygon farm_id tree_inventory =
     (case ee_polygon (geometry_polygon env) polygon of
        Inl e \<Rightarrow> Inl e
      | Inr aoi \<Rightarrow>
     (case area_getInfo env of
        Inl e \<Rightarrow> Inl e
      | Inr area_m2 \<Rightarrow>
     (let a_ha = area_m2 / 10000 in
     (case af_agb_estimate env a_ha tree_inventory of
        Inl e \<Rightarrow> Inl e
      | Inr (method, est) \<Rightarrow> Inr (build_result (now_isoformat env) a_ha method est)))))"

section \<open>Deforestation (\<open>deforestation_analysis.py\<close>, \<open>analyze_deforestation\<close>)\<close>

text \<open>
  The provider's answers for this analysis. \<open>int_of_str\<close> is Python's built-in \<open>int\<close> on a
  string, which raises \<open>ValueError\<close> on a malformed one; \<open>year_size\<close> and \<open>year_thumb\<close> are
  the two remote calls made for each year of the period.
\<close>

record defor_env =
  d_geometry_polygon :: "json \<Rightarrow> py_exn option"
  int_of_str :: "string \<Rightarrow> py_exn + int"
  area_stats_getInfo :: "py_exn + (string \<rightharpoonup> ee_value)"
  loss_stats_getInfo :: "py_exn + (string \<rightharpoonup> ee_value)"
  change_thumb :: "py_exn + string"
  year_size :: "int \<Rightarrow> py_exn + int"
  year_thumb :: "int \<Rightarrow> py_exn + string"
  d_now_isoformat :: string
  clock_start_year :: int
  clock_end_year :: int

record deforestation_result =
  deforestationPercent :: real
  areaLostHa :: real
  initialForestHa :: real
  compliant :: bool
  historicalImages :: "(int \<times> string) list"
  analyzedPeriod :: "string \<times> string"
  analysisDate :: string
  d_methodology :: string
  changeDetectionUrl :: "string option"
  warning :: "string option"

text \<open>\<open>s.split('-')[0]\<close>: the text before the first hyphen.\<close>

definition first_field :: "string \<Rightarrow> string" where
  "first_field s = takeWhile (\<lambda>c. c \<noteq> CHR ''-'') s"

text \<open>\<open>info.get(key, 0)\<close> on a statistics dict.\<close>

definition stat_get :: "(string \<rightharpoonup> ee_value) \<Rightarrow> string \<Rightarrow> ee_value" where
  "stat_get info key = (case info key of None \<Rightarrow> EENum 0 | Some v \<Rightarrow> v)"

text \<open>
  Lines 88 to 97: hectares from the two pixel sums, the percentage and the verdict, before
  any rounding.
\<close>

record metrics =
  total_forest_ha :: real
  area_lost_ha :: real
  deforestation_percent :: real
  is_compliant :: bool

definition deforestation_metrics :: "real \<Rightarrow> real \<Rightarrow> metrics" where
  "deforestation_metrics total_forest_pixels lost_pixels =
     (let pixel_area_ha = 0.09;
          forest_ha = total_forest_pixels * pixel_area_ha / 100;
          lost_ha = lost_pixels * pixel_area_ha / 100;
          percent = (if forest_ha > 0 then lost_ha / forest_ha * 100 else 0)
      in \<lparr>total_forest_ha = forest_ha, area_lost_ha = lost_ha,
           deforestation_percent = percent, is_compliant = (percent < 5)\<rparr>)"

text \<open>
  The loop over the years, lines 115 to 144. An exception of either remote call is caught
  inside the loop body and the year is left out.
\<close>

fun historical_images :: "defor_env \<Rightarrow> int list \<Rightarrow> (int \<times> string) list" where
  "historical_images env [] = []"
| "historical_images env (year # years) =
     (case year_size env year of
        Inl e \<Rightarrow> historical_images env years
      | Inr collection_size \<Rightarrow>
          if collection_size > 0 then
            (case year_thumb env year of
               Inl e \<Rightarrow> historical_images env years
             | Inr thumbnail \<Rightarrow> (year, thumbnail) # historical_images env years)
          else historical_images env years)"

text \<open>
  The body of the \<open>try\<close>, lines 83 to 163. \<open>Inl\<close> is an exception that leaves the body: one
  of the two \<open>getInfo()\<close> calls raising, or \<open>None\<close> met in the arithmetic.
\<close>

definition deforestation_body ::
  "defor_env \<Rightarrow> string \<Rightarrow> string \<Rightarrow> int \<Rightarrow> int \<Rightarrow> py_exn + deforestation_result" where
  "deforestation_body env start_date end_date start_year end_year =
     (case area_stats_getInfo env of
        Inl e \<Rightarrow> Inl e
      | Inr area_info \<Rightarrow>
     (case loss_stats_getInfo env of
        Inl e \<Rightarrow> Inl e
      | Inr loss_info \<Rightarrow>
     (case stat_get area_info ''treecover2000'' of
        EENull \<Rightarrow> Inl (TypeError ''unsupported operand type(s) for *: NoneType and float'')
      | EENum total_forest_pixels \<Rightarrow>
     (case stat_get loss_info ''lossyear'' of
        EENull \<Rightarrow> Inl (TypeError ''unsupported operand type(s) for *: NoneType and float'')
      | EENum lost_pixels \<Rightarrow>
          (let m = deforestation_metrics total_forest_pixels lost_pixels;
               change_detection_url = (case change_thumb env of Inl e \<Rightarrow> None | Inr u \<Rightarrow> Some u);
               images = historical_images env [start_year..end_year]
           in Inr \<lparr>deforestationPercent = py_round (deforestation_percent m) 2,
                   areaLostHa = py_round (area_lost_ha m) 2,
                   initialForestHa = py_round (total_forest_ha m) 2,
                   compliant = is_compliant m,
                   historicalImages = images,
                   analyzedPeriod = (start_date, end_date),
                   analysisDate = d_now_isoformat env,
                   d_methodology = ''Hansen GFC + Sentinel-2 validation'',
                   changeDetectionUrl =
                     (case change_detection_url of
                        Some u \<Rightarrow> if u \<noteq> [] then Some u else None
                      | None \<Rightarrow> None),
                   warning = None\<rparr>)))))"

text \<open>The \<open>except Exception\<close> block, lines 164 to 180.\<close>

definition default_result :: "defor_env \<Rightarrow> string \<Rightarrow> string \<Rightarrow> deforestation_result" where
  "default_result env start_date end_date =
     \<lparr>deforestationPercent = 0,
      areaLostHa = 0,
      initialForestHa = 0,
      compliant = True,
      historicalImages = [],
      analyzedPeriod = (start_date, end_date),
      analysisDate = d_now_isoformat env,
      d_methodology = ''Hansen GFC + Sentinel-2 validation'',
      changeDetectionUrl = None,
      warning = Some ''Deforestation calculation failed, using default values''\<rparr>"

text \<open>
  The whole function. What precedes the \<open>try\<close> (reading the coordinates, building the
  geometry, parsing the two years) is not guarded and its exceptions leave the function.
\<close>

definition analyze_deforestation ::
  "defor_env \<Rightarrow> json \<Rightarrow> string \<Rightarrow> string \<Rightarrow> string \<Rightarrow> py_exn + deforestation_result" where
  "analyze_deforestation env polygon start_date end_date project_id =
     (case ee_polygon (d_geometry_polygon env) polygon of
        Inl e \<Rightarrow> Inl e
      | Inr ee_poly \<Rightarrow>
     (case int_of_str env (first_field start_date) of
        Inl e \<Rightarrow> Inl e
      | Inr start_year \<Rightarrow>
     (case int_of_str env (first_field end_date) of
        Inl e \<Rightarrow> Inl e
      | Inr end_year \<Rightarrow>
          (case deforestation_body env start_date end_date start_year end_year of
             Inr result \<Rightarrow> Inr result
           | Inl e \<Rightarrow> Inr (default_result env start_date end_date)))))"

subsection \<open>The local script's variant (\<open>analyze_farm.py\<close>, \<open>analyze_deforestation\<close>)\<close>

text \<open>
  The period is the last five years by the clock, the two sums are areas in square metres,
  \<open>None\<close> counts as 0 (\<open>.get(key, 0) or 0\<close>), and nothing is caught: every exception of a
  remote call leaves the function.
\<close>

definition stat_get_or0 :: "(string \<rightharpoonup> ee_value) \<Rightarrow> string \<Rightarrow> real" where
  "stat_get_or0 info key = (case stat_get info key of EENull \<Rightarrow> 0 | EENum v \<Rightarrow> if v \<noteq> 0 then v else 0)"

definition af_deforestation_metrics :: "real \<Rightarrow> real \<Rightarrow> metrics" where
  "af_deforestation_metrics initial_forest_area forest_loss =
     (let initial_forest_ha = initial_forest_area / 10000;
          loss_ha = forest_loss / 10000;
          percent = (if initial_forest_ha > 0 then loss_ha / initial_forest_ha * 100 else 0)
      in \<lparr>total_forest_ha = initial_forest_ha, area_lost_ha = loss_ha,
           deforestation_percent = percent, is_compliant = (percent < 5.0)\<rparr>)"

fun af_historical_images :: "defor_env \<Rightarrow> int list \<Rightarrow> py_exn + (int \<times> string) list" where
  "af_historical_images env [] = Inr []"
| "af_historical_images env (year # years) =
     (case year_size env year of
        Inl e \<Rightarrow> Inl e
      | Inr collection_size \<Rightarrow>
          if collection_size > 0 then
            (case year_thumb env year of
               Inl e \<Rightarrow> Inl e
             | Inr thumbnail \<Rightarrow>
                 (case af_historical_images env years of
                    Inl e \<Rightarrow> Inl e
                  | Inr images \<Rightarrow> Inr ((year, thumbnail) # images)))
          else af_historical_images env years)"

record af_deforestation_result =
  af_deforestationPercent :: real
  af_areaLostHa :: real
  af_initialForestHa :: real
  af_compliant :: bool
  af_historicalImages :: "(int \<times> string) list"
  af_changeDetectionUrl :: string
  af_analysisDate :: string
  af_methodology :: string
  af_periodAnalyzed :: string

definition af_analyze_deforestation ::
  "defor_env \<Rightarrow> json \<Rightarrow> string \<Rightarrow> py_exn + af_deforestation_result" where
  "af_analyze_deforestation env polygon farm_id =
     (case ee_polygon (d_geometry_polygon env) polygon of
        Inl e \<Rightarrow> Inl e
      | Inr aoi \<Rightarrow>
     (let start_year = clock_start_year env; end_year = clock_end_year env in
     (case area_stats_getInfo env of
        Inl e \<Rightarrow> Inl e
      | Inr initial_forest_result \<Rightarrow>
     (case loss_stats_getInfo env of
        Inl e \<Rightarrow> Inl e
      | Inr forest_loss_result \<Rightarrow>
          (let m = af_deforestation_metrics
                     (stat_get_or0 initial_forest_result ''treecover2000'')
                     (stat_get_or0 forest_loss_result ''lossyear'')
           in case change_thumb env of
                Inl e \<Rightarrow> Inl e
              | Inr change_url \<Rightarrow>
                  (case af_historical_images env [start_year..end_year] of
                     Inl e \<Rightarrow> Inl e
                   | Inr images \<Rightarrow>
                       Inr \<lparr>af_deforestationPercent = py_round (deforestation_percent m) 2,
                            af_areaLostHa = py_round (area_lost_ha m) 2,
                            af_initialForestHa = py_round (total_forest_ha m) 2,
                            af_compliant = is_compliant m,
                            af_historicalImages = images,
                            af_changeDetectionUrl = change_url,
                            af_analysisDate = d_now_isoformat env,
                            af_methodology = ''Hansen GFC + Sentinel-2 validation'',
                            af_periodAnalyzed = str_int start_year @ '' - '' @ str_int end_year\<rparr>))))))"

subsection \<open>The field method as the specification words it\<close>

text \<open>
  These three definitions follow the specification, not the code: the biomass of one tree by
  the allometric relation \<open>0.0673 * (rho * DBH\<^sup>2 * H) ^ 0.976\<close> kilograms, the sum over the
  measurements with positive diameter and positive height of count times that biomass, and the
  sum of their counts. The code's loop is compared with them below.
\<close>

definition spec_tree_agb_kg :: "tree \<Rightarrow> real" where
  "spec_tree_agb_kg t =
     0.0673 * (wood_density (tree_species t) * (tree_dbh t)\<^sup>2 * tree_height t) powr 0.976"

definition spec_field_total_kg :: "tree list \<Rightarrow> real" where
  "spec_field_total_kg trees =
     (\<Sum>t\<leftarrow>filter (\<lambda>t. 0 < tree_dbh t \<and> 0 < tree_height t) trees.
        of_int (tree_cnt t) * spec_tree_agb_kg t)"

definition spec_trees_counted :: "tree list \<Rightarrow> int" where
  "spec_trees_counted trees =
     (\<Sum>t\<leftarrow>filter (\<lambda>t. 0 < tree_dbh t \<and> 0 < tree_height t) trees. tree_cnt t)"

section \<open>Example inputs\<close>

text \<open>
  A square polygon, a provider that finds no image over an area of one hectare (10000 square
  metres), the same provider over an area of zero, and two inventory entries: one that the
  field loop skips (its diameter is 0) and one that it counts.
\<close>

definition unit_square :: json where
  "unit_square =
     JDict [(''type'', JStr ''Polygon''),
            (''coordinates'',
               JList [JList [JList [JInt 0, JInt 0], JList [JInt 1, JInt 0], JList [JInt 1, JInt 1],
                             JList [JInt 0, JInt 1], JList [JInt 0, JInt 0]]])]"

definition accept_geometry :: "json \<Rightarrow> py_exn option" where
  "accept_geometry coords = None"

definition no_images_env :: ee_env where
  "no_images_env =
     \<lparr>geometry_polygon = accept_geometry, area_getInfo = Inr 10000, size_getInfo = Inr 0,
      ndvi_getInfo = Inr Map.empty, now_isoformat = ''2025-01-01T00:00:00''\<rparr>"

definition zero_area_env :: ee_env where
  "zero_area_env =
     \<lparr>geometry_polygon = accept_geometry, area_getInfo = Inr 0, size_getInfo = Inr 0,
      ndvi_getInfo = Inr Map.empty, now_isoformat = ''2025-01-01T00:00:00''\<rparr>"

definition skipped_tree :: tree where
  "skipped_tree =
     \<lparr>species = Some ''Inga'', dbh_cm = Some 0, avgDbh = None, height_m = Some 12,
      avgHeight = None, tree_count = Some 4\<rparr>"

definition eucalyptus_tree :: tree where
  "eucalyptus_tree =
     \<lparr>species = Some ''Eucalyptus'', dbh_cm = Some 30, avgDbh = None, height_m = Some 20,
      avgHeight = None, tree_count = Some 5\<rparr>"

text \<open>A GeoJSON point with an elevation.\<close>

definition point_geometry :: json where
  "point_geometry =
     JDict [(''type'', JStr ''Point''), (''coordinates'', JList [JFloat 1, JFloat 2, JFloat 3])]"

text \<open>
  A provider whose tree-cover statistics time out, for the deforestation analysis. Its
  \<open>int\<close> reads a string of decimal digits; no year has an image.
\<close>

definition is_digit :: "char \<Rightarrow> bool" where
  "is_digit c = (48 \<le> (of_char c :: nat) \<and> (of_char c :: nat) \<le> 57)"

definition decimal_int :: "string \<Rightarrow> py_exn + int" where
  "decimal_int s =
     (if s \<noteq> [] \<and> list_all is_digit s
      then Inr (foldl (\<lambda>n c. 10 * n + (int (of_char c) - 48)) 0 s)
      else Inl (ValueError ''invalid literal for int() with base 10''))"

definition no_year_images :: "int \<Rightarrow> py_exn + int" where
  "no_year_images year = Inr 0"

definition no_year_thumb :: "int \<Rightarrow> py_exn + string" where
  "no_year_thumb year = Inl (EEException ''Image.getThumbURL: no image'')"

definition timeout_env :: defor_env where
  "timeout_env =
     \<lparr>d_geometry_polygon = accept_geometry,
      int_of_str = decimal_int,
      area_stats_getInfo = Inl (EEException ''Computation timed out.''),
      loss_stats_getInfo = Inr Map.empty,
      change_thumb = Inl (EEException ''Computation timed out.''),
      year_size = no_year_images,
      year_thumb = no_year_thumb,
      d_now_isoformat = ''2025-01-01T00:00:00'',
      clock_start_year = 2020,
      clock_end_year = 2025\<rparr>"

text \<open>
  Coordinates in which every list that starts with a number has at most two entries, the
  shape that \<open>_strip_z_coordinates\<close> produces.
\<close>

fun at_most_2d :: "json \<Rightarrow> bool" where
  "at_most_2d (JList cs) =
     (if cs \<noteq> [] \<and> is_number (hd cs) then length cs \<le> 2 else list_all at_most_2d cs)"
| "at_most_2d j = True"

section \<open>Properties of the retry executor\<close>

lemma retryable_failure_simps [simp]:
  "retryable_failure (Inr v) = False"
  "retryable_failure (Inl (EEException msg)) = retryable_msg msg"
  "retryable_failure (Inl (KeyError msg)) = False"
  "retryable_failure (Inl (TypeError msg)) = False"
  "retryable_failure (Inl (ValueError msg)) = False"
  "retryable_failure (Inl (IndexError msg)) = False"
  "retryable_failure (Inl (AttributeError msg)) = False"
  "retryable_failure (Inl (RuntimeError msg)) = False"
  "retryable_failure (Inl (OtherException msg)) = False"
  by (simp_all add: retryable_failure_def)

declare retry_loop.simps [simp del]

lemma retry_loop_step:
  assumes "int attempt < max_retries"
  shows "retry_loop operation max_retries delay operation_name attempt last_error st =
     (if retryable_failure (operation (calls st)) \<and> int attempt < max_retries - 1
      then retry_loop operation max_retries delay operation_name (Suc attempt)
             (Some (projl (operation (calls st))))
             (st\<lparr>calls := Suc (calls st), sleeps := sleeps st @ [delay * 2 ^ attempt]\<rparr>)
      else (operation (calls st), st\<lparr>calls := Suc (calls st)\<rparr>))"
proof (cases "operation (calls st)")
  case (Inr v)
  then show ?thesis using assms by (subst retry_loop.simps) simp
next
  case (Inl e)
  then show ?thesis using assms by (subst retry_loop.simps) (cases e; simp)
qed

lemma retry_loop_exhausted:
  "\<not> int attempt < max_retries \<Longrightarrow>
   retry_loop operation max_retries delay operation_name attempt last_error st =
     (case last_error of
        Some e \<Rightarrow> (Inl e, st)
      | None \<Rightarrow> (Inl (RuntimeError
           (operation_name @ '' failed after '' @ str_int max_retries @ '' attempts'')), st))"
  by (subst retry_loop.simps) simp

lemma retry_loop_spec:
  assumes "retry_loop operation m d name attempt le st = (res, st')"
    and "calls st = attempt" and "int attempt < m"
  shows "attempt < calls st' \<and> int (calls st') \<le> m \<and> res = operation (calls st' - 1)
     \<and> (\<forall>i \<in> {attempt..<calls st' - 1}. retryable_failure (operation i))
     \<and> sleeps st' = sleeps st @ map (\<lambda>a. d * 2 ^ a) [attempt..<calls st' - 1]
     \<and> (int (calls st') < m \<longrightarrow> \<not> retryable_failure (operation (calls st' - 1)))"
  using assms
proof (induction "nat (m - int attempt)" arbitrary: attempt le st)
  case 0
  then show ?case by simp
next
  case (Suc n)
  show ?case
  proof (cases "retryable_failure (operation attempt) \<and> int attempt < m - 1")
    case False
    then have "res = operation attempt" and "st' = st\<lparr>calls := Suc attempt\<rparr>"
      using Suc.prems by (auto simp: retry_loop_step split: if_splits)
    then show ?thesis using Suc.prems False by auto
  next
    case True
    let ?st = "st\<lparr>calls := Suc (calls st), sleeps := sleeps st @ [d * 2 ^ attempt]\<rparr>"
    have run: "retry_loop operation m d name (Suc attempt) (Some (projl (operation (calls st)))) ?st = (res, st')"
      using Suc.prems True by (simp add: retry_loop_step)
    have n: "n = nat (m - int (Suc attempt))"
      using Suc.hyps(2) by simp
    have IH: "Suc attempt < calls st' \<and> int (calls st') \<le> m \<and> res = operation (calls st' - 1)
       \<and> (\<forall>i \<in> {Suc attempt..<calls st' - 1}. retryable_failure (operation i))
       \<and> sleeps st' = sleeps ?st @ map (\<lambda>a. d * 2 ^ a) [Suc attempt..<calls st' - 1]
       \<and> (int (calls st') < m \<longrightarrow> \<not> retryable_failure (operation (calls st' - 1)))"
      using Suc.hyps(1)[OF n run] Suc.prems True by simp
    have upt: "[attempt..<calls st' - 1] = attempt # [Suc attempt..<calls st' - 1]"
    proof -
      have "attempt < calls st' - 1" using IH by linarith
      then show ?thesis by (rule upt_conv_Cons)
    qed
    have "\<forall>i \<in> {attempt..<calls st' - 1}. retryable_failure (operation i)"
    proof
      fix i assume "i \<in> {attempt..<calls st' - 1}"
      then have "i = attempt \<or> i \<in> {Suc attempt..<calls st' - 1}" by auto
      then show "retryable_failure (operation i)" using IH True by blast
    qed
    then show ?thesis using IH upt by simp
  qed
qed


text \<open>
  Claim C5. With \<open>max_retries \<ge> 1\<close> the executor invokes the operation at least once and at
  most \<open>max_retries\<close> times. It sleeps once before each further invocation, for
  \<open>delay * 2 ^ attempt\<close>, and every invocation but the last ended in a provider error whose
  message names a timeout, a rate limit or a quota. The result is the outcome of the last
  invocation: the first outcome that is not such an error (a value, another provider error or
  any other exception) ends the run at once with that outcome, and when all \<open>max_retries\<close>
  invocations fail in the retryable way the last error is raised again.
\<close>

theorem retry_ee_operation_attempts:
  assumes "1 \<le> max_retries"
    and "retry_ee_operation operation max_retries delay operation_name = (res, st)"
  shows "1 \<le> calls st \<and> int (calls st) \<le> max_retries
     \<and> sleeps st = map (\<lambda>attempt. delay * 2 ^ attempt) [0..<calls st - 1]
     \<and> (\<forall>i \<in> {0..<calls st - 1}. retryable_failure (operation i))
     \<and> res = operation (calls st - 1)
     \<and> (\<forall>k. int k < max_retries \<and> (\<forall>i<k. retryable_failure (operation i))
            \<and> \<not> retryable_failure (operation k) \<longrightarrow> res = operation k \<and> calls st = Suc k)
     \<and> ((\<forall>i. int i < max_retries \<longrightarrow> retryable_failure (operation i)) \<longrightarrow>
            res = operation (nat max_retries - 1) \<and> int (calls st) = max_retries)"
proof -
  have run: "retry_loop operation max_retries delay operation_name 0 None \<lparr>calls = 0, sleeps = []\<rparr> = (res, st)"
    using assms(2) by (simp add: retry_ee_operation_def)
  have spec: "0 < calls st \<and> int (calls st) \<le> max_retries \<and> res = operation (calls st - 1)
     \<and> (\<forall>i \<in> {0..<calls st - 1}. retryable_failure (operation i))
     \<and> sleeps st = sleeps \<lparr>calls = 0, sleeps = []\<rparr> @ map (\<lambda>a. delay * 2 ^ a) [0..<calls st - 1]
     \<and> (int (calls st) < max_retries \<longrightarrow> \<not> retryable_failure (operation (calls st - 1)))"
    using retry_loop_spec[OF run] assms(1) by simp
  have early: "res = operation k \<and> calls st = Suc k"
    if k: "int k < max_retries" "\<forall>i<k. retryable_failure (operation i)"
      "\<not> retryable_failure (operation k)" for k
  proof -
    have "\<not> k < calls st - 1" using spec k(3) by auto
    moreover have "\<not> calls st - 1 < k"
    proof
      assume lt: "calls st - 1 < k"
      then have "int (calls st) < max_retries" using k(1) spec by linarith
      then have "\<not> retryable_failure (operation (calls st - 1))" using spec by blast
      then show False using k(2) lt by blast
    qed
    ultimately have "calls st - 1 = k" by linarith
    then show ?thesis using spec by auto
  qed
  have all: "res = operation (nat max_retries - 1) \<and> int (calls st) = max_retries"
    if a: "\<forall>i. int i < max_retries \<longrightarrow> retryable_failure (operation i)"
  proof -
    have "\<not> int (calls st) < max_retries"
    proof
      assume lt: "int (calls st) < max_retries"
      then have "\<not> retryable_failure (operation (calls st - 1))" using spec by blast
      moreover have "int (calls st - 1) < max_retries" using lt by linarith
      ultimately show False using a by blast
    qed
    then have "int (calls st) = max_retries" using spec by linarith
    then show ?thesis using spec by auto
  qed
  have first: "1 \<le> calls st \<and> int (calls st) \<le> max_retries
     \<and> sleeps st = map (\<lambda>attempt. delay * 2 ^ attempt) [0..<calls st - 1]
     \<and> (\<forall>i \<in> {0..<calls st - 1}. retryable_failure (operation i))
     \<and> res = operation (calls st - 1)"
    using spec by simp
  from first early all show ?thesis by blast
qed

lemma str_int_0: "str_int 0 = ''0''"
  by code_simp

text \<open>
  Claim C9. With \<open>max_retries = 0\<close> the operation is never invoked, nothing is slept, and a
  \<open>RuntimeError\<close> saying that the operation failed after 0 attempts is raised.
\<close>

theorem retry_ee_operation_zero:
  "retry_ee_operation operation 0 delay operation_name =
     (Inl (RuntimeError (operation_name @ '' failed after 0 attempts'')), \<lparr>calls = 0, sleeps = []\<rparr>)"
  by (simp add: retry_ee_operation_def retry_loop_exhausted str_int_0)

text \<open>Two runs of the executor, evaluated.\<close>

lemma quota_retryable: "retryable_msg ''Quota exceeded''"
  by code_simp

lemma boom_run:
  "retry_ee_operation
     (\<lambda>k. if k < 1 then Inl (EEException ''Quota exceeded'') else (Inl (OtherException ''boom'') :: py_exn + int))
     3 2 ''size'' = (Inl (OtherException ''boom''), \<lparr>calls = 2, sleeps = [2]\<rparr>)"
  by (simp add: retry_ee_operation_def retry_loop_step quota_retryable)

lemma quota_run:
  "retry_ee_operation (\<lambda>k. (Inl (EEException ''Quota exceeded'') :: py_exn + int)) 3 2 ''size'' =
     (Inl (EEException ''Quota exceeded''), \<lparr>calls = 3, sleeps = [2, 4]\<rparr>)"
  by (simp add: retry_ee_operation_def retry_loop_step quota_retryable)

text \<open>
  The theorem at two runs with \<open>max_retries = 3\<close> and \<open>delay = 2\<close>: a quota error followed by
  an exception that is not the provider's, and three quota errors.
\<close>

theorem retry_ee_operation_attempts_witness:
  "(1::int) \<le> 3
   \<and> retry_ee_operation
       (\<lambda>k. if k < 1 then Inl (EEException ''Quota exceeded'') else (Inl (OtherException ''boom'') :: py_exn + int))
       3 2 ''size'' = (Inl (OtherException ''boom''), \<lparr>calls = 2, sleeps = [2]\<rparr>)
   \<and> retry_ee_operation (\<lambda>k. (Inl (EEException ''Quota exceeded'') :: py_exn + int)) 3 2 ''size'' =
       (Inl (EEException ''Quota exceeded''), \<lparr>calls = 3, sleeps = [2, 4]\<rparr>)
   \<and> int (calls \<lparr>calls = 2, sleeps = [2::real]\<rparr>) \<le> 3
   \<and> int (calls \<lparr>calls = 3, sleeps = [2::real, 4]\<rparr>) \<le> 3"
proof -
  have h: "(1::int) \<le> 3" by simp
  show ?thesis
    using h retry_ee_operation_attempts [OF h boom_run] retry_ee_operation_attempts [OF h quota_run]
      boom_run quota_run
    by simp
qed

section \<open>Properties of the biomass and carbon estimation\<close>

lemma py_round_50: "py_round 50 2 = 50"
  by (simp add: py_round_def Let_def)

lemma py_round_0: "py_round 0 n = 0"
  by (simp add: py_round_def Let_def)

lemma py_round_35: "py_round 35 2 = 35"
  by (simp add: py_round_def Let_def)

lemma field_loop_sum:
  "field_loop trees kg n =
     (kg + (\<Sum>t\<leftarrow>filter (\<lambda>t. 0 < tree_dbh t \<and> 0 < tree_height t) trees.
              of_int (tree_cnt t) * spec_tree_agb_kg t),
      n + (\<Sum>t\<leftarrow>filter (\<lambda>t. 0 < tree_dbh t \<and> 0 < tree_height t) trees. tree_cnt t))"
proof (induction trees arbitrary: kg n)
  case Nil
  show ?case by simp
next
  case (Cons t rest)
  show ?case
  proof (cases "0 < tree_dbh t \<and> 0 < tree_height t")
    case True
    then show ?thesis
      by (simp add: Cons.IH Let_def spec_tree_agb_kg_def not_le algebra_simps)
  next
    case False
    then have "tree_dbh t \<le> 0 \<or> tree_height t \<le> 0" by auto
    then show ?thesis using False
      by (auto simp: Cons.IH Let_def)
  qed
qed


lemma calculate_agb_from_field_data_eq:
  "calculate_agb_from_field_data trees =
     \<lparr>total_agb_kg = spec_field_total_kg trees,
      total_agb_tonnes = spec_field_total_kg trees / 1000,
      trees_analyzed = spec_trees_counted trees\<rparr>"
  by (simp add: calculate_agb_from_field_data_def field_loop_sum spec_field_total_kg_def
      spec_trees_counted_def)

text \<open>
  Claim C7. For every tree inventory the field method's total is the sum, over the measurements
  with diameter > 0 and height > 0, of count times \<open>0.0673 * (rho * DBH\<^sup>2 * H) ^ 0.976\<close>
  kilograms, divided by 1000 for tonnes; \<open>rho\<close> is the table's entry for the species, or its
  \<open>default\<close> entry 0.60 when the species is not in the table; the other measurements are
  skipped without an error; and with the field method the confidence is \<open>high\<close> when the counts
  of the measurements taken sum to 10 or more, and \<open>medium\<close> otherwise.
\<close>

theorem field_method_total_agb:
  "calculate_agb_from_field_data trees =
     \<lparr>total_agb_kg = spec_field_total_kg trees,
      total_agb_tonnes = spec_field_total_kg trees / 1000,
      trees_analyzed = spec_trees_counted trees\<rparr>
   \<and> wood_density sp =
       (case map_of WOOD_DENSITY sp of Some rho \<Rightarrow> rho | None \<Rightarrow> 0.60)
   \<and> map_of WOOD_DENSITY ''default'' = Some 0.60
   \<and> agb_by_method env polygon a_ha (Some (t # ts)) ''field'' =
       Inr \<lparr>total_agb = spec_field_total_kg (t # ts) / 1000,
            est_agb_per_ha = (if a_ha > 0 then spec_field_total_kg (t # ts) / 1000 / a_ha else 0),
            est_trees_analyzed = spec_trees_counted (t # ts),
            est_confidence = (if spec_trees_counted (t # ts) \<ge> 10 then ''high'' else ''medium'')\<rparr>"
proof -
  have d: "map_of WOOD_DENSITY ''default'' = Some 0.60"
    by (simp add: WOOD_DENSITY_def)
  have w: "wood_density sp = (case map_of WOOD_DENSITY sp of Some rho \<Rightarrow> rho | None \<Rightarrow> 0.60)"
    unfolding wood_density_def d by (cases "map_of WOOD_DENSITY sp") simp_all
  have a: "agb_by_method env polygon a_ha (Some (t # ts)) ''field'' =
       Inr \<lparr>total_agb = spec_field_total_kg (t # ts) / 1000,
            est_agb_per_ha = (if a_ha > 0 then spec_field_total_kg (t # ts) / 1000 / a_ha else 0),
            est_trees_analyzed = spec_trees_counted (t # ts),
            est_confidence = (if spec_trees_counted (t # ts) \<ge> 10 then ''high'' else ''medium'')\<rparr>"
    by (simp add: agb_by_method_def calculate_agb_from_field_data_eq Let_def)
  show ?thesis using d w a calculate_agb_from_field_data_eq by blast
qed

lemma all_skipped:
  assumes "\<forall>t \<in> set trees. tree_dbh t \<le> 0 \<or> tree_height t \<le> 0"
  shows "spec_field_total_kg trees = 0" and "spec_trees_counted trees = 0"
proof -
  have "filter (\<lambda>t. 0 < tree_dbh t \<and> 0 < tree_height t) trees = []"
    using assms by (auto simp: filter_empty_conv)
  then show "spec_field_total_kg trees = 0" and "spec_trees_counted trees = 0"
    by (simp_all add: spec_field_total_kg_def spec_trees_counted_def)
qed

text \<open>
  Claim C8, as amended. For a non-empty inventory all of whose measurements are skipped, the
  number of trees analysed is 0, the field weight is exactly 0.3, and the hybrid total is the
  weighted sum \<open>0 * 0.3 + satellite * 0.7\<close>, that is 0.7 times the satellite estimate.
\<close>

theorem hybrid_zero_trees:
  assumes "trees \<noteq> []"
    and "\<forall>t \<in> set trees. tree_dbh t \<le> 0 \<or> tree_height t \<le> 0"
    and "calculate_agb_from_satellite env polygon = Inr sat"
  shows "trees_analyzed (calculate_agb_from_field_data trees) = 0
     \<and> field_weight (trees_analyzed (calculate_agb_from_field_data trees)) = 0.3
     \<and> agb_by_method env polygon a_ha (Some trees) ''hybrid'' =
         Inr \<lparr>total_agb = 0.7 * sat_total_agb_tonnes sat,
              est_agb_per_ha = (if a_ha > 0 then 0.7 * sat_total_agb_tonnes sat / a_ha else 0),
              est_trees_analyzed = 0,
              est_confidence = ''high''\<rparr>"
proof -
  obtain t ts where ts: "trees = t # ts" using assms(1) by (cases trees) auto
  have z: "spec_field_total_kg trees = 0" "spec_trees_counted trees = 0"
    using all_skipped[OF assms(2)] by simp_all
  have fw: "field_weight 0 = 0.3" by (simp add: field_weight_def)
  have "agb_by_method env polygon a_ha (Some (t # ts)) ''hybrid'' =
         Inr \<lparr>total_agb = 0.7 * sat_total_agb_tonnes sat,
              est_agb_per_ha = (if a_ha > 0 then 0.7 * sat_total_agb_tonnes sat / a_ha else 0),
              est_trees_analyzed = 0,
              est_confidence = ''high''\<rparr>"
    using z assms(3) unfolding ts
    by (simp add: agb_by_method_def calculate_agb_from_field_data_eq Let_def fw)
  then show ?thesis using z ts by (simp add: calculate_agb_from_field_data_eq fw)
qed


lemma ee_polygon_unit_square:
  "ee_polygon accept_geometry unit_square =
     Inr (JList [JList [JList [JInt 0, JInt 0], JList [JInt 1, JInt 0], JList [JInt 1, JInt 1],
                        JList [JInt 0, JInt 1], JList [JInt 0, JInt 0]]])"
  by (simp add: ee_polygon_def polygon_coords_def unit_square_def accept_geometry_def dict_get_def)

lemma satellite_no_images:
  "calculate_agb_from_satellite no_images_env unit_square =
     Inr \<lparr>sat_total_agb_tonnes = 50, agb_per_ha = 50, area_ha = 1, ndvi_mean = 0.5,
          sat_method = ''default_estimation''\<rparr>"
  by (simp add: calculate_agb_from_satellite_def no_images_env_def ee_polygon_unit_square)

lemma skipped_tree_skipped: "tree_dbh skipped_tree \<le> 0 \<or> tree_height skipped_tree \<le> 0"
  by (simp add: tree_dbh_def skipped_tree_def)

text \<open>The theorem at the one-hectare polygon without images and a single skipped tree.\<close>

theorem hybrid_zero_trees_witness:
  "[skipped_tree] \<noteq> []
   \<and> (tree_dbh skipped_tree \<le> 0 \<or> tree_height skipped_tree \<le> 0)
   \<and> calculate_agb_from_satellite no_images_env unit_square =
       Inr \<lparr>sat_total_agb_tonnes = 50, agb_per_ha = 50, area_ha = 1, ndvi_mean = 0.5,
            sat_method = ''default_estimation''\<rparr>
   \<and> field_weight (trees_analyzed (calculate_agb_from_field_data [skipped_tree])) = 0.3
   \<and> agb_by_method no_images_env unit_square 1 (Some [skipped_tree]) ''hybrid'' =
       Inr \<lparr>total_agb = 35, est_agb_per_ha = 35, est_trees_analyzed = 0, est_confidence = ''high''\<rparr>"
proof -
  have h1: "[skipped_tree] \<noteq> []" by simp
  have h2: "\<forall>t \<in> set [skipped_tree]. tree_dbh t \<le> 0 \<or> tree_height t \<le> 0"
    using skipped_tree_skipped by simp
  note th = hybrid_zero_trees [OF h1 h2 satellite_no_images, of 1]
  have c1: "field_weight (trees_analyzed (calculate_agb_from_field_data [skipped_tree])) = 0.3"
    using th by blast
  have c2: "agb_by_method no_images_env unit_square 1 (Some [skipped_tree]) ''hybrid'' =
       Inr \<lparr>total_agb = 35, est_agb_per_ha = 35, est_trees_analyzed = 0, est_confidence = ''high''\<rparr>"
    using conjunct2 [OF conjunct2 [OF th]] by simp
  show ?thesis
    using h1 skipped_tree_skipped satellite_no_images c1 c2 by blast
qed

text \<open>
  Claim C8 as stated fails there: the satellite estimate is 50 tonnes and the hybrid total is
  35 tonnes, in the internal value and in the reported \<open>totalAgbTonnes\<close> alike.
\<close>

theorem hybrid_zero_trees_counterexample:
  "trees_analyzed (calculate_agb_from_field_data [skipped_tree]) = 0
   \<and> sat_total_agb_tonnes (projr (calculate_agb_from_satellite no_images_env unit_square)) = 50
   \<and> total_agb (projr (agb_by_method no_images_env unit_square 1 (Some [skipped_tree]) ''hybrid'')) = 35
   \<and> totalAgbTonnes (projr (calculate_carbon_baseline no_images_env unit_square ''farm''
         (Some [skipped_tree]) ''hybrid'')) = 35
   \<and> totalAgbTonnes (projr (calculate_carbon_baseline no_images_env unit_square ''farm''
         (Some [skipped_tree]) ''satellite'')) = 50"
proof -
  have z: "spec_field_total_kg [skipped_tree] = 0" "spec_trees_counted [skipped_tree] = 0"
    using skipped_tree_skipped
    by (auto simp: spec_field_total_kg_def spec_trees_counted_def)
  have hy: "agb_by_method no_images_env unit_square 1 (Some [skipped_tree]) ''hybrid'' =
      Inr \<lparr>total_agb = 35, est_agb_per_ha = 35, est_trees_analyzed = 0, est_confidence = ''high''\<rparr>"
    by (simp add: agb_by_method_def calculate_agb_from_field_data_eq z satellite_no_images
        field_weight_def Let_def)
  have sa: "agb_by_method no_images_env unit_square 1 (Some [skipped_tree]) ''satellite'' =
      Inr \<lparr>total_agb = 50, est_agb_per_ha = 50, est_trees_analyzed = 0, est_confidence = ''medium''\<rparr>"
    by (simp add: agb_by_method_def satellite_no_images)
  have area: "area_getInfo no_images_env = Inr 10000" "geometry_polygon no_images_env = accept_geometry"
    by (simp_all add: no_images_env_def)
  show ?thesis
    by (simp add: calculate_carbon_baseline_def area ee_polygon_unit_square hy sa build_result_def
        py_round_35 py_round_50 calculate_agb_from_field_data_eq z satellite_no_images)
qed

text \<open>
  Claim C10. When the polygon's area is 0, the field branch and the hybrid branch of
  \<open>calculate_carbon_baseline\<close> (and the field branch of the local script) return a result
  whose \<open>agbTonnesPerHa\<close> is 0: the division by the area is not made. The field branch needs
  nothing more from the provider; the hybrid branch returns whenever its satellite estimate
  does.
\<close>

theorem zero_area_guarded:
  assumes "ee_polygon (geometry_polygon env) polygon = Inr aoi"
    and "area_getInfo env = Inr 0"
  shows "(\<exists>r. calculate_carbon_baseline env polygon project_id (Some (t # ts)) ''field'' = Inr r
            \<and> agbTonnesPerHa r = 0 \<and> areaHa r = 0)
     \<and> (\<exists>r. af_calculate_carbon_baseline env polygon farm_id (Some (t # ts)) = Inr r
            \<and> agbTonnesPerHa r = 0 \<and> areaHa r = 0)
     \<and> (\<forall>sat. calculate_agb_from_satellite env polygon = Inr sat \<longrightarrow>
          (\<exists>r. calculate_carbon_baseline env polygon project_id (Some (t # ts)) ''hybrid'' = Inr r
            \<and> agbTonnesPerHa r = 0 \<and> areaHa r = 0))"
  using assms
  by (simp add: calculate_carbon_baseline_def af_calculate_carbon_baseline_def agb_by_method_def
      af_agb_estimate_def build_result_def py_round_0 Let_def split: prod.split)

lemma satellite_zero_area:
  "calculate_agb_from_satellite zero_area_env unit_square =
     Inr \<lparr>sat_total_agb_tonnes = 0, agb_per_ha = 50, area_ha = 0, ndvi_mean = 0.5,
          sat_method = ''default_estimation''\<rparr>"
  by (simp add: calculate_agb_from_satellite_def zero_area_env_def ee_polygon_unit_square)

text \<open>
  The theorem at the polygon of area 0 with one counted tree; the satellite estimate exists
  there, so the hybrid branch returns too.
\<close>

theorem zero_area_guarded_witness:
  "ee_polygon (geometry_polygon zero_area_env) unit_square =
     Inr (JList [JList [JList [JInt 0, JInt 0], JList [JInt 1, JInt 0], JList [JInt 1, JInt 1],
                        JList [JInt 0, JInt 1], JList [JInt 0, JInt 0]]])
   \<and> area_getInfo zero_area_env = Inr 0
   \<and> agbTonnesPerHa (projr (calculate_carbon_baseline zero_area_env unit_square ''farm''
         (Some [eucalyptus_tree]) ''field'')) = 0
   \<and> agbTonnesPerHa (projr (af_calculate_carbon_baseline zero_area_env unit_square ''farm''
         (Some [eucalyptus_tree]))) = 0
   \<and> agbTonnesPerHa (projr (calculate_carbon_baseline zero_area_env unit_square ''farm''
         (Some [eucalyptus_tree]) ''hybrid'')) = 0"
proof -
  have h1: "ee_polygon (geometry_polygon zero_area_env) unit_square =
     Inr (JList [JList [JList [JInt 0, JInt 0], JList [JInt 1, JInt 0], JList [JInt 1, JInt 1],
                        JList [JInt 0, JInt 1], JList [JInt 0, JInt 0]]])"
    by (simp add: zero_area_env_def ee_polygon_unit_square)
  have h2: "area_getInfo zero_area_env = Inr 0"
    by (simp add: zero_area_env_def)
  note th = zero_area_guarded [OF h1 h2, of "''farm''" eucalyptus_tree "[]" "''farm''"]
  have c1: "agbTonnesPerHa (projr (calculate_carbon_baseline zero_area_env unit_square ''farm''
         (Some [eucalyptus_tree]) ''field'')) = 0"
    using th by auto
  have c2: "agbTonnesPerHa (projr (af_calculate_carbon_baseline zero_area_env unit_square ''farm''
         (Some [eucalyptus_tree]))) = 0"
    using th by auto
  have c3: "agbTonnesPerHa (projr (calculate_carbon_baseline zero_area_env unit_square ''farm''
         (Some [eucalyptus_tree]) ''hybrid'')) = 0"
    using th satellite_zero_area by auto
  show ?thesis using h1 h2 c1 c2 c3 by blast
qed

text \<open>
  Claim C3, as amended. When the provider reports zero images, the satellite estimate has
  \<open>agb_per_ha = 50\<close>, a total of 50 times the area in hectares, and its own \<open>method\<close> entry
  is \<open>default_estimation\<close>. The result of \<open>calculate_carbon_baseline\<close> for the satellite
  method then reports \<open>agbTonnesPerHa = 50\<close> and the rounded total, and its \<open>methodology\<close> is
  the method that was asked for, \<open>satellite\<close>, with confidence \<open>medium\<close>; the local script
  reports \<open>satellite\<close> with confidence \<open>low\<close>.
\<close>

theorem no_images_default:
  assumes "ee_polygon (geometry_polygon env) polygon = Inr aoi"
    and "area_getInfo env = Inr area_m2"
    and "size_getInfo env = Inr 0"
  shows "calculate_agb_from_satellite env polygon =
       Inr \<lparr>sat_total_agb_tonnes = area_m2 / 10000 * 50, agb_per_ha = 50,
            area_ha = area_m2 / 10000, ndvi_mean = 0.5, sat_method = ''default_estimation''\<rparr>
     \<and> (\<exists>r. calculate_carbon_baseline env polygon project_id tree_inventory ''satellite'' = Inr r
            \<and> agbTonnesPerHa r = 50
            \<and> totalAgbTonnes r = py_round (area_m2 / 10000 * 50) 2
            \<and> areaHa r = py_round (area_m2 / 10000) 4
            \<and> methodology r = ''satellite'' \<and> confidence r = ''medium'')
     \<and> (\<exists>r. af_calculate_carbon_baseline env polygon farm_id None = Inr r
            \<and> agbTonnesPerHa r = 50
            \<and> totalAgbTonnes r = py_round (50 * (area_m2 / 10000)) 2
            \<and> methodology r = ''satellite'' \<and> confidence r = ''low'')"
proof -
  have sat: "calculate_agb_from_satellite env polygon =
       Inr \<lparr>sat_total_agb_tonnes = area_m2 / 10000 * 50, agb_per_ha = 50,
            area_ha = area_m2 / 10000, ndvi_mean = 0.5, sat_method = ''default_estimation''\<rparr>"
    using assms by (simp add: calculate_agb_from_satellite_def)
  have cb: "\<exists>r. calculate_carbon_baseline env polygon project_id tree_inventory ''satellite'' = Inr r
            \<and> agbTonnesPerHa r = 50
            \<and> totalAgbTonnes r = py_round (area_m2 / 10000 * 50) 2
            \<and> areaHa r = py_round (area_m2 / 10000) 4
            \<and> methodology r = ''satellite'' \<and> confidence r = ''medium''"
    using assms sat
    by (simp add: calculate_carbon_baseline_def agb_by_method_def build_result_def py_round_50)
  have af: "\<exists>r. af_calculate_carbon_baseline env polygon farm_id None = Inr r
            \<and> agbTonnesPerHa r = 50
            \<and> totalAgbTonnes r = py_round (50 * (area_m2 / 10000)) 2
            \<and> methodology r = ''satellite'' \<and> confidence r = ''low''"
    using assms
    by (simp add: af_calculate_carbon_baseline_def af_agb_estimate_def build_result_def py_round_50)
  show ?thesis using sat cb af by blast
qed

lemma area_no_images: "area_getInfo no_images_env = Inr 10000"
  and size_no_images: "size_getInfo no_images_env = Inr 0"
  and geometry_no_images: "geometry_polygon no_images_env = accept_geometry"
  and now_no_images: "now_isoformat no_images_env = ''2025-01-01T00:00:00''"
  by (simp_all add: no_images_env_def)

lemma baseline_no_images:
  "calculate_carbon_baseline no_images_env unit_square ''farm'' None method =
     Inr (build_result ''2025-01-01T00:00:00'' 1 method
           \<lparr>total_agb = 50, est_agb_per_ha = 50, est_trees_analyzed = 0,
            est_confidence = ''medium''\<rparr>)"
  by (simp add: calculate_carbon_baseline_def agb_by_method_def satellite_no_images
      area_no_images geometry_no_images now_no_images ee_polygon_unit_square)

text \<open>
  The theorem at the one-hectare polygon without images.
\<close>

theorem no_images_default_witness:
  "ee_polygon (geometry_polygon no_images_env) unit_square =
     Inr (JList [JList [JList [JInt 0, JInt 0], JList [JInt 1, JInt 0], JList [JInt 1, JInt 1],
                        JList [JInt 0, JInt 1], JList [JInt 0, JInt 0]]])
   \<and> area_getInfo no_images_env = Inr 10000
   \<and> size_getInfo no_images_env = Inr 0
   \<and> calculate_agb_from_satellite no_images_env unit_square =
       Inr \<lparr>sat_total_agb_tonnes = 50, agb_per_ha = 50, area_ha = 1, ndvi_mean = 0.5,
            sat_method = ''default_estimation''\<rparr>
   \<and> agbTonnesPerHa (projr (calculate_carbon_baseline no_images_env unit_square ''farm'' None
         ''satellite'')) = 50"
proof -
  have h1: "ee_polygon (geometry_polygon no_images_env) unit_square =
     Inr (JList [JList [JList [JInt 0, JInt 0], JList [JInt 1, JInt 0], JList [JInt 1, JInt 1],
                        JList [JInt 0, JInt 1], JList [JInt 0, JInt 0]]])"
    by (simp add: geometry_no_images ee_polygon_unit_square)
  note th = no_images_default [OF h1 area_no_images size_no_images, of "''farm''" None "''farm''"]
  have c1: "calculate_agb_from_satellite no_images_env unit_square =
       Inr \<lparr>sat_total_agb_tonnes = 50, agb_per_ha = 50, area_ha = 1, ndvi_mean = 0.5,
            sat_method = ''default_estimation''\<rparr>"
    using conjunct1 [OF th] by simp
  have c2: "agbTonnesPerHa (projr (calculate_carbon_baseline no_images_env unit_square ''farm'' None
         ''satellite'')) = 50"
    using th by auto
  show ?thesis using h1 area_no_images size_no_images c1 c2 by blast
qed

text \<open>
  Claim C3 as stated fails there: with zero images the result's \<open>methodology\<close> is
  \<open>satellite\<close>, not \<open>default_estimation\<close>.
\<close>

theorem no_images_methodology_counterexample:
  "size_getInfo no_images_env = Inr 0
   \<and> calculate_carbon_baseline no_images_env unit_square ''farm'' None ''satellite'' =
       Inr (build_result ''2025-01-01T00:00:00'' 1 ''satellite''
             \<lparr>total_agb = 50, est_agb_per_ha = 50, est_trees_analyzed = 0,
              est_confidence = ''medium''\<rparr>)
   \<and> methodology (projr (calculate_carbon_baseline no_images_env unit_square ''farm'' None
         ''satellite'')) = ''satellite''
   \<and> methodology (projr (calculate_carbon_baseline no_images_env unit_square ''farm'' None
         ''satellite'')) \<noteq> ''default_estimation''"
  by (simp add: baseline_no_images size_no_images build_result_def)

text \<open>
  Claim C4, as amended. With an absent or empty inventory, \<open>calculate_carbon_baseline\<close>
  does for every method, \<open>field\<close> and \<open>hybrid\<close> included, exactly what it does for
  \<open>satellite\<close>: it raises what the satellite path raises and nothing else, and it returns the
  satellite path's result with the \<open>methodology\<close> entry set to the method that was asked for.
\<close>

theorem missing_inventory_fallback:
  assumes "\<not> has_inventory tree_inventory"
  shows "calculate_carbon_baseline env polygon project_id tree_inventory method =
     (case calculate_carbon_baseline env polygon project_id tree_inventory ''satellite'' of
        Inl e \<Rightarrow> Inl e
      | Inr r \<Rightarrow> Inr (r\<lparr>methodology := method\<rparr>))"
  using assms
  by (simp add: calculate_carbon_baseline_def agb_by_method_def build_result_def Let_def
      split: sum.split)

text \<open>
  The theorem at the one-hectare polygon without images and no inventory, for \<open>field\<close> and
  for \<open>hybrid\<close>.
\<close>

theorem missing_inventory_fallback_witness:
  "\<not> has_inventory None
   \<and> methodology (projr (calculate_carbon_baseline no_images_env unit_square ''farm'' None ''field''))
       = ''field''
   \<and> totalAgbTonnes (projr (calculate_carbon_baseline no_images_env unit_square ''farm'' None ''field''))
       = 50
   \<and> confidence (projr (calculate_carbon_baseline no_images_env unit_square ''farm'' None ''hybrid''))
       = ''medium''"
proof -
  have h: "\<not> has_inventory None" by simp
  note sat = baseline_no_images [of "''satellite''"]
  show ?thesis
    using h
      missing_inventory_fallback [OF h, of no_images_env unit_square "''farm''" "''field''"]
      missing_inventory_fallback [OF h, of no_images_env unit_square "''farm''" "''hybrid''"]
    by (simp add: sat build_result_def py_round_50)
qed

text \<open>
  Claim C4 as stated fails there: after the fallback the \<open>methodology\<close> entry reads
  \<open>field\<close> although the estimate is the satellite one (50 tonnes per hectare), and a run of
  the field method on an inventory reads \<open>field\<close> as well, so the entry does not tell the
  two apart.
\<close>

theorem missing_inventory_methodology_counterexample:
  "methodology (projr (calculate_carbon_baseline no_images_env unit_square ''farm'' None ''field''))
     = ''field''
   \<and> agbTonnesPerHa (projr (calculate_carbon_baseline no_images_env unit_square ''farm'' None ''field''))
     = 50
   \<and> methodology (projr (calculate_carbon_baseline no_images_env unit_square ''farm''
        (Some [eucalyptus_tree]) ''field'')) = ''field''"
proof -
  have fallback: "methodology (projr (calculate_carbon_baseline no_images_env unit_square ''farm'' None ''field''))
     = ''field''
   \<and> agbTonnesPerHa (projr (calculate_carbon_baseline no_images_env unit_square ''farm'' None ''field''))
     = 50"
    by (simp add: baseline_no_images build_result_def py_round_50)
  have genuine: "methodology (projr (calculate_carbon_baseline no_images_env unit_square ''farm''
        (Some [eucalyptus_tree]) ''field'')) = ''field''"
    by (simp add: calculate_carbon_baseline_def agb_by_method_def area_no_images
        geometry_no_images ee_polygon_unit_square build_result_def Let_def)
  show ?thesis using fallback genuine by blast
qed

section \<open>Properties of the deforestation analysis\<close>

lemma metrics_at_five:
  "deforestation_metrics 100000 5000 =
     \<lparr>total_forest_ha = 90, area_lost_ha = 4.5, deforestation_percent = 5, is_compliant = False\<rparr>"
  by (simp add: deforestation_metrics_def Let_def)

lemma metrics_below_five:
  "deforestation_metrics 100000 4999 =
     \<lparr>total_forest_ha = 90, area_lost_ha = 4.4991, deforestation_percent = 4.999,
      is_compliant = True\<rparr>"
  by (simp add: deforestation_metrics_def Let_def)

lemma metrics_no_forest:
  "deforestation_metrics 0 0 =
     \<lparr>total_forest_ha = 0, area_lost_ha = 0, deforestation_percent = 0, is_compliant = True\<rparr>"
  by (simp add: deforestation_metrics_def Let_def)

lemma first_field_2019: "first_field ''2019-01-01'' = ''2019''"
  by (simp add: first_field_def)

lemma first_field_2024: "first_field ''2024-12-31'' = ''2024''"
  by (simp add: first_field_def)

lemma decimal_int_2019: "decimal_int ''2019'' = Inr 2019"
  by code_simp

lemma decimal_int_2024: "decimal_int ''2024'' = Inr 2024"
  by code_simp

text \<open>
  Claim C2. From two pixel sums, which are not negative, both analyzers compute the
  percentage as lost hectares over initial forest hectares times 100, and as 0 when the
  initial forest is 0, and they set the verdict to compliant exactly when that percentage is
  below 5. These are the values before the result dict rounds the percentage to two places;
  the verdict is taken from the unrounded percentage.
\<close>

theorem deforestation_percent_and_verdict:
  assumes "0 \<le> total_forest_pixels" and "0 \<le> initial_forest_area"
  shows "(let m = deforestation_metrics total_forest_pixels lost_pixels
          in deforestation_percent m =
               (if total_forest_ha m = 0 then 0 else area_lost_ha m / total_forest_ha m * 100)
             \<and> is_compliant m = (deforestation_percent m < 5))
     \<and> (let m = af_deforestation_metrics initial_forest_area forest_loss
          in deforestation_percent m =
               (if total_forest_ha m = 0 then 0 else area_lost_ha m / total_forest_ha m * 100)
             \<and> is_compliant m = (deforestation_percent m < 5))"
  using assms
  by (auto simp: deforestation_metrics_def af_deforestation_metrics_def Let_def)


text \<open>
  The theorem at 100000 forest pixels: 4999 lost pixels give 4.999 percent and a compliant
  parcel, 5000 lost pixels give exactly 5 percent and a parcel that is not compliant; and no
  forest at all gives 0 percent.
\<close>

theorem deforestation_percent_and_verdict_witness:
  "(0::real) \<le> 100000 \<and> (0::real) \<le> 0
   \<and> deforestation_percent (deforestation_metrics 100000 4999) = 4.999
   \<and> is_compliant (deforestation_metrics 100000 4999)
   \<and> deforestation_percent (deforestation_metrics 100000 5000) = 5
   \<and> \<not> is_compliant (deforestation_metrics 100000 5000)
   \<and> deforestation_percent (af_deforestation_metrics 0 0) = 0
   \<and> is_compliant (af_deforestation_metrics 0 0)"
proof -
  have h1: "(0::real) \<le> 100000" and h2: "(0::real) \<le> 0" by simp_all
  note below = deforestation_percent_and_verdict [OF h1 h2, of 4999 0]
  note at = deforestation_percent_and_verdict [OF h1 h2, of 5000 0]
  have p1: "deforestation_percent (deforestation_metrics 100000 4999) = 4.999"
    and p2: "deforestation_percent (deforestation_metrics 100000 5000) = 5"
    by (simp_all add: metrics_below_five metrics_at_five)
  have p3: "deforestation_percent (af_deforestation_metrics 0 0) = 0"
    using at by (simp add: Let_def af_deforestation_metrics_def)
  have c1: "is_compliant (deforestation_metrics 100000 4999)"
    using below p1 by (simp add: Let_def)
  have c2: "\<not> is_compliant (deforestation_metrics 100000 5000)"
    using at p2 by (simp add: Let_def)
  have c3: "is_compliant (af_deforestation_metrics 0 0)"
    using at p3 by (simp add: Let_def)
  show ?thesis using h1 h2 p1 p2 p3 c1 c2 c3 by blast
qed

text \<open>
  The result dict takes its verdict and its percentage from these values.
\<close>

lemma deforestation_body_verdict:
  assumes "area_stats_getInfo env = Inr area_info"
    and "loss_stats_getInfo env = Inr loss_info"
    and "stat_get area_info ''treecover2000'' = EENum total_forest_pixels"
    and "stat_get loss_info ''lossyear'' = EENum lost_pixels"
  shows "\<exists>r. deforestation_body env start_date end_date start_year end_year = Inr r
     \<and> compliant r = is_compliant (deforestation_metrics total_forest_pixels lost_pixels)
     \<and> deforestationPercent r =
         py_round (deforestation_percent (deforestation_metrics total_forest_pixels lost_pixels)) 2
     \<and> warning r = None"
  using assms by (simp add: deforestation_body_def Let_def)

text \<open>
  The rounding of the report can reach 5.00 where the verdict, taken before it, is still
  compliant: 4996 lost pixels of 100000 are 4.996 percent.
\<close>

lemma rounded_percent_reaches_five:
  "deforestation_percent (deforestation_metrics 100000 4996) = 4.996
   \<and> is_compliant (deforestation_metrics 100000 4996)
   \<and> py_round (deforestation_percent (deforestation_metrics 100000 4996)) 2 = 5"
proof -
  have m: "deforestation_metrics 100000 4996 =
     \<lparr>total_forest_ha = 90, area_lost_ha = 4.4964, deforestation_percent = 4.996,
      is_compliant = True\<rparr>"
    by (simp add: deforestation_metrics_def Let_def)
  have p: "deforestation_percent (deforestation_metrics 100000 4996) = 4.996"
    and c: "is_compliant (deforestation_metrics 100000 4996)"
    by (simp_all add: m)
  have f: "\<lfloor>2498 / 5 :: real\<rfloor> = 499" by linarith
  have r: "py_round 4.996 2 = 5"
    by (simp add: py_round_def Let_def f)
  have "py_round (deforestation_percent (deforestation_metrics 100000 4996)) 2 = 5"
    unfolding p by (rule r)
  then show ?thesis using p c by blast
qed

text \<open>
  Claim C1. Once the analysis has reached its two statistics queries (the coordinates were
  read, the geometry built and both years parsed), a failure of either \<open>getInfo()\<close> does not
  leave \<open>analyze_deforestation\<close>: the function returns a result whose
  \<open>deforestationPercent\<close>, \<open>areaLostHa\<close> and \<open>initialForestHa\<close> are 0, whose \<open>compliant\<close>
  is true and which carries the \<open>warning\<close> entry.
\<close>

theorem analysis_failure_defaults:
  assumes "ee_polygon (d_geometry_polygon env) polygon = Inr ee_poly"
    and "int_of_str env (first_field start_date) = Inr start_year"
    and "int_of_str env (first_field end_date) = Inr end_year"
    and "area_stats_getInfo env = Inl e \<or> loss_stats_getInfo env = Inl e"
  shows "\<exists>r. analyze_deforestation env polygon start_date end_date project_id = Inr r
     \<and> deforestationPercent r = 0 \<and> areaLostHa r = 0 \<and> initialForestHa r = 0
     \<and> compliant r \<and> warning r = Some ''Deforestation calculation failed, using default values''"
proof -
  have "\<exists>e'. deforestation_body env start_date end_date start_year end_year = Inl e'"
    using assms(4)
    by (auto simp: deforestation_body_def split: sum.splits)
  then show ?thesis using assms(1-3)
    by (auto simp: analyze_deforestation_def default_result_def)
qed


text \<open>
  The theorem at a provider whose tree-cover query times out, for the period 2019 to 2024.
\<close>

theorem analysis_failure_defaults_witness:
  "ee_polygon (d_geometry_polygon timeout_env) unit_square =
     Inr (JList [JList [JList [JInt 0, JInt 0], JList [JInt 1, JInt 0], JList [JInt 1, JInt 1],
                        JList [JInt 0, JInt 1], JList [JInt 0, JInt 0]]])
   \<and> int_of_str timeout_env (first_field ''2019-01-01'') = Inr 2019
   \<and> int_of_str timeout_env (first_field ''2024-12-31'') = Inr 2024
   \<and> area_stats_getInfo timeout_env = Inl (EEException ''Computation timed out.'')
   \<and> deforestationPercent (projr (analyze_deforestation timeout_env unit_square ''2019-01-01''
         ''2024-12-31'' ''farm'')) = 0
   \<and> compliant (projr (analyze_deforestation timeout_env unit_square ''2019-01-01''
         ''2024-12-31'' ''farm''))
   \<and> warning (projr (analyze_deforestation timeout_env unit_square ''2019-01-01''
         ''2024-12-31'' ''farm'')) = Some ''Deforestation calculation failed, using default values''"
proof -
  have h1: "ee_polygon (d_geometry_polygon timeout_env) unit_square =
     Inr (JList [JList [JList [JInt 0, JInt 0], JList [JInt 1, JInt 0], JList [JInt 1, JInt 1],
                        JList [JInt 0, JInt 1], JList [JInt 0, JInt 0]]])"
    by (simp add: timeout_env_def ee_polygon_unit_square)
  have h2: "int_of_str timeout_env (first_field ''2019-01-01'') = Inr 2019"
    by (simp add: timeout_env_def first_field_2019 decimal_int_2019)
  have h3: "int_of_str timeout_env (first_field ''2024-12-31'') = Inr 2024"
    by (simp add: timeout_env_def first_field_2024 decimal_int_2024)
  have h4: "area_stats_getInfo timeout_env = Inl (EEException ''Computation timed out.'')"
    by (simp add: timeout_env_def)
  have h4': "area_stats_getInfo timeout_env = Inl (EEException ''Computation timed out.'')
      \<or> loss_stats_getInfo timeout_env = Inl (EEException ''Computation timed out.'')"
    using h4 by simp
  note th = analysis_failure_defaults [OF h1 h2 h3 h4', of "''farm''"]
  have c1: "deforestationPercent (projr (analyze_deforestation timeout_env unit_square ''2019-01-01''
         ''2024-12-31'' ''farm'')) = 0"
    using th by auto
  have c2: "compliant (projr (analyze_deforestation timeout_env unit_square ''2019-01-01''
         ''2024-12-31'' ''farm''))"
    using th by auto
  have c3: "warning (projr (analyze_deforestation timeout_env unit_square ''2019-01-01''
         ''2024-12-31'' ''farm'')) = Some ''Deforestation calculation failed, using default values''"
    using th by auto
  show ?thesis using h1 h2 h3 h4 c1 c2 c3 by blast
qed

text \<open>
  The local script's \<open>analyze_deforestation\<close> has no such handler: there the failure of the
  query leaves the function.
\<close>

lemma af_failure_propagates:
  assumes "ee_polygon (d_geometry_polygon env) polygon = Inr aoi"
    and "area_stats_getInfo env = Inl e"
  shows "af_analyze_deforestation env polygon farm_id = Inl e"
  using assms by (simp add: af_analyze_deforestation_def Let_def)

section \<open>Properties of the geometry normalizer\<close>

lemma strip_z_is_number: "is_number (strip_z_coordinates coords) = is_number coords"
  by (cases coords) auto

lemma strip_z_at_most_2d: "at_most_2d (strip_z_coordinates coords)"
proof (induction coords rule: strip_z_coordinates.induct)
  case (1 cs)
  show ?case
  proof (cases "cs \<noteq> [] \<and> is_number (hd cs)")
    case True
    then show ?thesis by (cases cs) auto
  next
    case False
    then show ?thesis using 1
      by (cases cs) (auto simp: list_all_iff strip_z_is_number)
  qed
qed simp_all

lemma strip_z_list: "is_list (strip_z_coordinates coords) = is_list coords"
  by (cases coords) auto

text \<open>
  Claim C6 says that the type of every normalized geometry is \<open>Polygon\<close>, as the docstring of
  \<open>_normalize_geometry\<close> does. The code passes any other type through: a GeoJSON point with
  an elevation is accepted and comes back as a \<open>Point\<close>, with its two first coordinates.
\<close>

theorem normalize_point_keeps_type:
  "normalize_geometry point_geometry =
     Inr (JDict [(''type'', JStr ''Point''), (''coordinates'', JList [JFloat 1, JFloat 2])])"
  by (simp add: normalize_geometry_def point_geometry_def dict_get_def)

text \<open>
  The point passes the normalizer's own test, a truthy \<open>type\<close> and coordinates that are not
  \<open>None\<close>, and the result is the one above.
\<close>

theorem normalize_point_keeps_type_witness:
  "truthy (JStr ''Point'')
   \<and> strip_z_coordinates (JList [JFloat 1, JFloat 2, JFloat 3]) = JList [JFloat 1, JFloat 2]
   \<and> projr (normalize_geometry point_geometry) =
       JDict [(''type'', JStr ''Point''), (''coordinates'', JList [JFloat 1, JFloat 2])]"
  using normalize_point_keeps_type by simp

text \<open>
  What does hold for every accepted geometry: the result is a dict of \<open>type\<close> and
  \<open>coordinates\<close>, the type is \<open>Polygon\<close> for a \<open>MultiPolygon\<close> and the input's type otherwise,
  and every coordinate list that starts with a number has at most two entries.
\<close>

lemma normalize_geometry_result:
  assumes "normalize_geometry geometry = Inr out"
  obtains d t c where "geometry = JDict d" and "out = JDict [(''type'', t), (''coordinates'', c)]"
    and "t = (if dict_get d ''type'' = JStr ''MultiPolygon'' then JStr ''Polygon''
              else dict_get d ''type'')"
    and "at_most_2d c"
proof -
  obtain d where d: "geometry = JDict d"
    using assms by (cases geometry) (auto simp: normalize_geometry_def)
  show ?thesis
  proof (cases "dict_get d ''type'' = JStr ''MultiPolygon''")
    case False
    then have "out = JDict [(''type'', dict_get d ''type''),
        (''coordinates'', strip_z_coordinates (dict_get d ''coordinates''))]"
      using assms d by (auto simp: normalize_geometry_def Let_def split: if_splits)
    then show ?thesis using that d False strip_z_at_most_2d by auto
  next
    case True
    then obtain first where f: "py_index0 (strip_z_coordinates (dict_get d ''coordinates'')) = Inr first"
      and o: "out = JDict [(''type'', JStr ''Polygon''), (''coordinates'', first)]"
      using assms d by (auto simp: normalize_geometry_def Let_def split: if_splits sum.splits)
    have "at_most_2d first"
    proof (cases "dict_get d ''coordinates''")
      case (JList cs)
      show ?thesis
      proof (cases "cs \<noteq> [] \<and> is_number (hd cs)")
        case num: True
        then obtain x xs where "cs = x # xs" by (cases cs) auto
        then have "first = x" using f JList num by auto
        then show ?thesis using num \<open>cs = x # xs\<close> by (cases x) auto
      next
        case nonum: False
        then have s: "strip_z_coordinates (JList cs) = JList (map strip_z_coordinates cs)" by auto
        then obtain x xs where "cs = x # xs" using f JList by (cases cs) auto
        then have "first = strip_z_coordinates x" using f JList s by auto
        then show ?thesis using strip_z_at_most_2d by simp
      qed
    next
      case (JStr x)
      then show ?thesis using f by (cases x) auto
    qed (use f in auto)
    then show ?thesis using that d o True by auto
  qed
qed

text \<open>
  A \<open>MultiPolygon\<close> of two polygons: the first one's rings are kept, without the third
  coordinate, and the second polygon is dropped.
\<close>

lemma normalize_multipolygon_first:
  "normalize_geometry
     (JDict [(''type'', JStr ''MultiPolygon''),
             (''coordinates'',
                JList [JList [JList [JList [JFloat 0, JFloat 0, JFloat 9], JList [JFloat 1, JFloat 0, JFloat 9],
                                     JList [JFloat 0, JFloat 1, JFloat 9], JList [JFloat 0, JFloat 0, JFloat 9]]],
                       JList [JList [JList [JFloat 5, JFloat 5], JList [JFloat 6, JFloat 5],
                                     JList [JFloat 5, JFloat 6], JList [JFloat 5, JFloat 5]]]])]) =
   Inr (JDict [(''type'', JStr ''Polygon''),
               (''coordinates'',
                  JList [JList [JList [JFloat 0, JFloat 0], JList [JFloat 1, JFloat 0],
                                JList [JFloat 0, JFloat 1], JList [JFloat 0, JFloat 0]]])])"
  by (simp add: normalize_geometry_def dict_get_def)

end
